theory Spec2Isabelle
  imports
    Complex_Main
    "HOL-Library.List_Lexorder"
    "HOL-Library.Product_Lexorder"
begin

section \<open>Python strings\<close>

text \<open>
  A Python \<open>str\<close> is a sequence of Unicode code points: a \<open>ustr\<close>, the list of their
  numbers (integers, so that the kernel computes on them in binary). The lexicographic order of these lists is Python's order on \<open>str\<close>. \<open>asc\<close>
  writes a text of ASCII characters as a literal. A \<open>str\<close> that only ever holds one of the
  program's ASCII literals (an intent, the name of a tool, the reason of a decision) is
  kept as such a literal, a \<open>string\<close>.
\<close>

type_synonym ustr = "int list"

definition asc :: "string \<Rightarrow> ustr" where
  "asc s = map of_char s"

fun startswith :: "'a list \<Rightarrow> 'a list \<Rightarrow> bool" where
  "startswith s [] = True"
| "startswith [] (c # p) = False"
| "startswith (x # s) (c # p) = (x = c \<and> startswith s p)"

definition endswith :: "'a list \<Rightarrow> 'a list \<Rightarrow> bool" where
  "endswith s p = startswith (rev s) (rev p)"

text \<open>\<open>str_in k s\<close> is Python's \<open>k in s\<close> on strings.\<close>

fun str_in :: "'a list \<Rightarrow> 'a list \<Rightarrow> bool" where
  "str_in k [] = (k = [])"
| "str_in k (x # s) = (startswith (x # s) k \<or> str_in k s)"

text \<open>\<open>join sep xs\<close> is \<open>sep.join(xs)\<close>.\<close>

fun join :: "'a list \<Rightarrow> 'a list list \<Rightarrow> 'a list" where
  "join sep [] = []"
| "join sep [x] = x"
| "join sep (x # y # ys) = x @ sep @ join sep (y # ys)"

text \<open>The characters beyond ASCII that the program's literals hold.\<close>

definition en_dash :: ustr where
  "en_dash = [0x2013]"

definition em_dash :: ustr where
  "em_dash = [0x2014]"

definition rsquo :: ustr where
  "rsquo = [0x2019]"

definition bullet :: ustr where
  "bullet = [0x2022]"

definition check_mark :: ustr where
  "check_mark = [0x2705]"

definition cross_mark :: ustr where
  "cross_mark = [0x274C]"

definition nl :: ustr where
  "nl = [0x0A]"

subsection \<open>Unicode\<close>

text \<open>
  \<open>str.lower\<close>, the classes \<open>\d\<close>, \<open>\s\<close> and \<open>\w\<close> of \<open>re\<close> on a \<open>str\<close>, and
  \<open>float\<close> on a run of digits follow the Unicode character database, which is Python's
  and not this program's. The model computes them on the plain code points: the ASCII
  ones, and the six marks above, which are punctuation and symbols (no letter, digit or
  space, and unchanged by \<open>lower\<close>). Beyond the plain code points they are the functions
  of a parameter, about which nothing is assumed: \<open>uni_lower\<close> is \<open>str.lower\<close> on a
  whole text (it is not a map over the characters: a final sigma depends on its
  neighbours), \<open>uni_decimal\<close>, \<open>uni_space\<close> and \<open>uni_alnum\<close> are the classes, and
  \<open>uni_digit_value\<close> is the value of a decimal digit.
\<close>

record unicode =
  uni_lower :: "ustr \<Rightarrow> ustr"
  uni_decimal :: "int \<Rightarrow> bool"
  uni_digit_value :: "int \<Rightarrow> int"
  uni_space :: "int \<Rightarrow> bool"
  uni_alnum :: "int \<Rightarrow> bool"

definition marks :: "int list" where
  "marks = [0x2013, 0x2014, 0x2019, 0x2022, 0x2705, 0x274C]"

definition plain :: "int \<Rightarrow> bool" where
  "plain c = ((0 \<le> c \<and> c < 128) \<or> c \<in> set marks)"

definition lower_ascii :: "int \<Rightarrow> int" where
  "lower_ascii c = (if 65 \<le> c \<and> c \<le> 90 then c + 32 else c)"

definition lower :: "unicode \<Rightarrow> ustr \<Rightarrow> ustr" where
  "lower U s = (if list_all plain s then map lower_ascii s else uni_lower U s)"

definition is_digit :: "unicode \<Rightarrow> int \<Rightarrow> bool" where
  "is_digit U c = (if plain c then 48 \<le> c \<and> c \<le> 57 else uni_decimal U c)"

definition digit_val :: "unicode \<Rightarrow> int \<Rightarrow> int" where
  "digit_val U c = (if plain c then c - 48 else uni_digit_value U c)"

definition is_space :: "unicode \<Rightarrow> int \<Rightarrow> bool" where
  "is_space U c =
     (if plain c then c = 32 \<or> (9 \<le> c \<and> c \<le> 13) \<or> (28 \<le> c \<and> c \<le> 31) else uni_space U c)"

definition is_alnum_ascii :: "int \<Rightarrow> bool" where
  "is_alnum_ascii c = ((48 \<le> c \<and> c \<le> 57) \<or> (65 \<le> c \<and> c \<le> 90) \<or> (97 \<le> c \<and> c \<le> 122))"

definition is_word_char :: "unicode \<Rightarrow> int \<Rightarrow> bool" where
  "is_word_char U c = (if plain c then is_alnum_ascii c \<or> c = 95 else uni_alnum U c)"

section \<open>The regular expressions of the program\<close>

text \<open>
  A backtracking matcher with the priorities of Python's \<open>re\<close>: a quantifier is
  greedy, an optional part is tried before it is skipped, and \<open>re.search\<close> takes the
  first match of the leftmost position that has one. A matcher state is the character
  before the position (for \<open>\b\<close>), the rest of the text, and group 1. A class written
  out in a pattern, like \<^verbatim>\<open>[A-Za-z]\<close>, is a list of ranges and one characters;
  \<open>Digit\<close> and \<open>Space\<close> are \<open>\d\<close> and \<open>\s\<close>, and \<open>WordB\<close> is \<open>\b\<close>.
\<close>

datatype cls = Range int int | Single int

fun in_cls :: "int \<Rightarrow> cls \<Rightarrow> bool" where
  "in_cls c (Range a b) = (a \<le> c \<and> c \<le> b)"
| "in_cls c (Single a) = (c = a)"

datatype regex =
    Eps
  | Cls "cls list"
  | Digit
  | Space
  | WordB
  | Seq regex regex
  | Opt regex
  | Star regex
  | Group regex

type_synonym mstate = "int option \<times> ustr \<times> ustr option"

definition is_word :: "unicode \<Rightarrow> int option \<Rightarrow> bool" where
  "is_word U c = (case c of None \<Rightarrow> False | Some x \<Rightarrow> is_word_char U x)"

definition next_char :: "ustr \<Rightarrow> int option" where
  "next_char s = (case s of [] \<Rightarrow> None | x # _ \<Rightarrow> Some x)"

text \<open>One character of a class: the step of \<open>Cls\<close>, \<open>Digit\<close> and \<open>Space\<close>.\<close>

definition one_char :: "(int \<Rightarrow> bool) \<Rightarrow> mstate \<Rightarrow> mstate list" where
  "one_char P st =
     (case st of (p, s, g) \<Rightarrow>
        (case s of [] \<Rightarrow> [] | x # xs \<Rightarrow> if P x then [(Some x, xs, g)] else []))"

text \<open>
  The loop of a star: one more round of the body first, the exit last. A round that
  consumes nothing is not repeated; the fuel is the length of the rest of the text, which
  every other round shortens.
\<close>

primrec star_ms :: "nat \<Rightarrow> (mstate \<Rightarrow> mstate list) \<Rightarrow> mstate \<Rightarrow> mstate list" where
  "star_ms 0 f st = [st]"
| "star_ms (Suc n) f st =
     concat (map (\<lambda>st'. if length (fst (snd st')) < length (fst (snd st))
                          then star_ms n f st' else []) (f st)) @ [st]"

primrec ms :: "unicode \<Rightarrow> regex \<Rightarrow> mstate \<Rightarrow> mstate list" where
  "ms U Eps = (\<lambda>st. [st])"
| "ms U (Cls cs) = one_char (\<lambda>x. list_ex (in_cls x) cs)"
| "ms U Digit = one_char (is_digit U)"
| "ms U Space = one_char (is_space U)"
| "ms U WordB = (\<lambda>(p, s, g). if is_word U p \<noteq> is_word U (next_char s) then [(p, s, g)] else [])"
| "ms U (Seq a b) = (\<lambda>st. concat (map (ms U b) (ms U a st)))"
| "ms U (Opt a) = (\<lambda>st. ms U a st @ [st])"
| "ms U (Star a) = (\<lambda>st. star_ms (length (fst (snd st))) (ms U a) st)"
| "ms U (Group a) = (\<lambda>(p, s, g).
     map (\<lambda>(p', s', g'). (p', s', Some (take (length s - length s') s))) (ms U a (p, s, g)))"

text \<open>\<open>re.search(r, s)\<close>, as its group 1: \<open>None\<close> when nothing matches.\<close>

fun search_from :: "unicode \<Rightarrow> regex \<Rightarrow> int option \<Rightarrow> ustr \<Rightarrow> ustr option" where
  "search_from U r p [] = (case ms U r (p, [], None) of [] \<Rightarrow> None | (_, _, g) # _ \<Rightarrow> g)"
| "search_from U r p (x # xs) =
     (case ms U r (p, x # xs, None) of [] \<Rightarrow> search_from U r (Some x) xs | (_, _, g) # _ \<Rightarrow> g)"

definition re_search :: "unicode \<Rightarrow> regex \<Rightarrow> ustr \<Rightarrow> ustr option" where
  "re_search U r s = search_from U r None s"

text \<open>The notation of the patterns, by its meaning.\<close>

definition seqs :: "regex list \<Rightarrow> regex" where
  "seqs rs = foldr Seq rs Eps"

definition chr :: "char \<Rightarrow> regex" where
  "chr c = Cls [Single (of_char c)]"

definition lit :: "string \<Rightarrow> regex" where
  "lit s = seqs (map chr s)"

definition rng :: "char \<Rightarrow> char \<Rightarrow> cls" where
  "rng a b = Range (of_char a) (of_char b)"

definition one :: "char \<Rightarrow> cls" where
  "one a = Single (of_char a)"

definition plus_re :: "regex \<Rightarrow> regex" where
  "plus_re r = Seq r (Star r)"

definition at_least :: "nat \<Rightarrow> regex \<Rightarrow> regex" where
  "at_least n r = Seq (seqs (replicate n r)) (Star r)"

primrec at_most :: "nat \<Rightarrow> regex \<Rightarrow> regex" where
  "at_most 0 r = Eps"
| "at_most (Suc n) r = Opt (Seq r (at_most n r))"

definition rep_between :: "nat \<Rightarrow> nat \<Rightarrow> regex \<Rightarrow> regex" where
  "rep_between m n r = Seq (seqs (replicate m r)) (at_most (n - m) r)"

definition letter :: regex where
  "letter = Cls [rng CHR ''A'' CHR ''Z'', rng CHR ''a'' CHR ''z'']"

text \<open>\<^verbatim>\<open>under\s*\$?\s*(\d+)\<close>\<close>

definition under_re :: regex where
  "under_re = seqs [lit ''under'', Star Space, Opt (chr CHR ''$''), Star Space, Group (plus_re Digit)]"

text \<open>\<^verbatim>\<open>(\b\d{5,6}\b)\<close>\<close>

definition zip_re :: regex where
  "zip_re = Group (seqs [WordB, rep_between 5 6 Digit, WordB])"

text \<open>\<^verbatim>\<open>(?:order\s*)?([A-Za-z]\d{4,})\<close>\<close>

definition order_re :: regex where
  "order_re = Seq (Opt (Seq (lit ''order'') (Star Space))) (Group (Seq letter (at_least 4 Digit)))"

text \<open>\<^verbatim>\<open>([A-Za-z0-9._%+-]+@[A-Za-z0-9.-]+\.[A-Za-z]{2,})\<close>\<close>

definition email_re :: regex where
  "email_re = Group (seqs
     [plus_re (Cls [rng CHR ''A'' CHR ''Z'', rng CHR ''a'' CHR ''z'', rng CHR ''0'' CHR ''9'',
                 one CHR ''.'', one CHR ''_'', one CHR ''%'', one CHR ''+'',
                 one CHR ''-'']),
      chr CHR ''@'',
      plus_re (Cls [rng CHR ''A'' CHR ''Z'', rng CHR ''a'' CHR ''z'', rng CHR ''0'' CHR ''9'',
                 one CHR ''.'', one CHR ''-'']),
      chr CHR ''.'',
      at_least 2 letter])"

text \<open>
  \<^verbatim>\<open>re.findall(r"[a-z0-9]+", q)\<close>: the maximal runs of lower-case letters and digits,
  from left to right.
\<close>

definition is_token_char :: "int \<Rightarrow> bool" where
  "is_token_char c = list_ex (in_cls c) [rng CHR ''a'' CHR ''z'', rng CHR ''0'' CHR ''9'']"

fun findall_runs :: "ustr \<Rightarrow> ustr \<Rightarrow> ustr list" where
  "findall_runs cur [] = (if cur = [] then [] else [cur])"
| "findall_runs cur (x # xs) =
     (if is_token_char x then findall_runs (cur @ [x]) xs
      else if cur = [] then findall_runs [] xs
      else cur # findall_runs [] xs)"

definition findall_tokens :: "ustr \<Rightarrow> ustr list" where
  "findall_tokens q = findall_runs [] q"

section \<open>Python numbers\<close>

text \<open>
  A Python \<open>float\<close> is an IEEE 754 double, modelled by its exact value, a rational;
  an operation on floats is the exact operation followed by \<open>fl\<close>, rounding to the
  nearest double, ties to even. \<open>fl\<close> is right in the range of the normal doubles
  (every float of this program that is not an infinity is there or is zero: the elapsed
  minutes are whole microseconds between two dates of the years 1 to 9999, over 60).
\<close>

text \<open>The number of binary digits of a positive integer.\<close>

function bitlen :: "int \<Rightarrow> nat" where
  "bitlen n = (if n \<le> 0 then 0 else Suc (bitlen (n div 2)))"
  by auto
termination
  by (relation "measure nat") auto

definition round_half_even :: "rat \<Rightarrow> int" where
  "round_half_even x =
     (let f = \<lfloor>x\<rfloor>; d = x - of_int f
      in if d < 1 / 2 then f else if 1 / 2 < d then f + 1 else if even f then f else f + 1)"

text \<open>For \<open>0 < x\<close>, the exponent \<open>e\<close> with \<open>2 ^ e \<le> x < 2 ^ (e + 1)\<close>.\<close>

definition binade :: "rat \<Rightarrow> int" where
  "binade x =
     (let (p, q) = quotient_of x; e0 = int (bitlen p) - int (bitlen q)
      in if 2 powi e0 \<le> x then e0 else e0 - 1)"

definition fl_pos :: "rat \<Rightarrow> rat" where
  "fl_pos x = (let u = 2 powi (binade x - 52) in of_int (round_half_even (x / u)) * u)"

definition fl :: "rat \<Rightarrow> rat" where
  "fl x = (if x = 0 then 0 else if 0 < x then fl_pos x else - fl_pos (- x))"

text \<open>\<open>float(s)\<close> of a string of decimal digits is finite or, past the largest double, \<open>inf\<close>.\<close>

datatype pyfloat = Finite rat | PosInf

definition int_of_digits :: "unicode \<Rightarrow> ustr \<Rightarrow> int" where
  "int_of_digits U s = foldl (\<lambda>n c. 10 * n + digit_val U c) 0 s"

definition float_of_digits :: "unicode \<Rightarrow> ustr \<Rightarrow> pyfloat" where
  "float_of_digits U s =
     (let r = fl (of_int (int_of_digits U s)) in if 2 ^ 1024 \<le> r then PosInf else Finite r)"

text \<open>\<open>str(n)\<close> of a natural number: ASCII digits.\<close>

fun str_nat :: "nat \<Rightarrow> string" where
  "str_nat n =
     (if n < 10 then [char_of (of_char CHR ''0'' + n)]
      else str_nat (n div 10) @ [char_of (of_char CHR ''0'' + n mod 10)])"

definition str_int :: "int \<Rightarrow> string" where
  "str_int i = (if i < 0 then ''-'' @ str_nat (nat (- i)) else str_nat (nat i))"

text \<open>
  \<^verbatim>\<open>f"{x:.1f}"\<close>: the decimal with one digit after the point that is nearest to the
  float's exact value, ties to even, under the float's sign.
\<close>

definition format_1f :: "rat \<Rightarrow> string" where
  "format_1f x =
     (let n = nat (round_half_even (\<bar>x\<bar> * 10))
      in (if x < 0 then ''-'' else []) @ str_nat (n div 10) @ ''.'' @ str_nat (n mod 10))"

text \<open>A number of a JSON file is an \<open>int\<close> or a \<open>float\<close>; \<open>num_val\<close> is its value.\<close>

datatype jnum = JInt int | JFloat rat

fun num_val :: "jnum \<Rightarrow> rat" where
  "num_val (JInt i) = of_int i"
| "num_val (JFloat r) = r"

section \<open>Dates\<close>

text \<open>
  A \<open>datetime\<close> is naive or aware; it is held as its microseconds since the epoch
  (an aware one in UTC). Subtraction gives a \<open>timedelta\<close>, a number of microseconds;
  between a naive and an aware \<open>datetime\<close> it raises \<open>TypeError\<close>.
\<close>

datatype datetime = Naive int | Aware int

datatype error = KeyError | ValueError | TypeError | AttributeError | LLMError

fun dt_sub :: "datetime \<Rightarrow> datetime \<Rightarrow> error + int" where
  "dt_sub (Naive a) (Naive b) = Inr (a - b)"
| "dt_sub (Aware a) (Aware b) = Inr (a - b)"
| "dt_sub (Naive a) (Aware b) = Inl TypeError"
| "dt_sub (Aware a) (Naive b) = Inl TypeError"

text \<open>\<open>timedelta.total_seconds()\<close> is the correctly rounded quotient by \<open>10 ^ 6\<close>.\<close>

definition total_seconds :: "int \<Rightarrow> rat" where
  "total_seconds us = fl (of_int us / 1000000)"

section \<open>The data, the state and the world\<close>

text \<open>
  The records of \<open>data/products.json\<close> and \<open>data/orders.json\<close>, with the keys the
  program reads. The program reads \<open>tags\<close> and \<open>color\<close> with a default (\<open>[]\<close> and
  \<open>""\<close>): a product without the key is the product with the default. The key \<open>id\<close>
  is \<open>item_id\<close> here.
\<close>

record product =
  item_id :: ustr
  title :: ustr
  price :: jnum
  sizes :: "ustr list"
  tags :: "ustr list"
  color :: ustr

record order =
  order_id :: ustr
  email :: ustr
  created_at :: ustr

text \<open>The dictionaries the tools return, and the two shapes of an evidence entry.\<close>

record size_rec =
  recommended :: ustr
  rationale :: ustr

record eta_rec =
  eta_zip :: ustr
  eta_window :: ustr

record decision =
  cancel_allowed :: bool
  reason :: string

datatype evidence =
    ProductEvidence ustr ustr jnum "ustr list"
  | OrderEvidence "ustr option" "ustr option" bool

text \<open>
  \<open>AgentState\<close>, a dictionary with optional keys: a field is \<open>None\<close> while its key is
  unset. A key that can hold Python's \<open>None\<close> has an option inside: \<open>Some None\<close> is
  the key set to \<open>None\<close>. The key \<open>prompt\<close> is always there: \<open>run_agent\<close> seeds it.
\<close>

record agent_state =
  s_prompt :: ustr
  s_intent :: "string option"
  s_tools_called :: "string list option"
  s_evidence :: "evidence list option"
  s_policy_decision :: "decision option option"
  s_final_message :: "ustr option"
  s_order :: "order option option"
  s_order_id :: "ustr option option"
  s_email :: "ustr option option"
  s_products :: "product list option"
  s_size :: "size_rec option"
  s_eta :: "eta_rec option"

text \<open>
  What the program reads from outside: four environment variables, the clock
  (\<open>datetime.now(timezone.utc)\<close>, in microseconds), the two data files, the Unicode
  database, and three functions that are not the program's own: \<open>datetime.fromisoformat\<close>
  (\<open>None\<close> when it raises \<open>ValueError\<close>), \<open>str\<close> on a float, and the text-generation
  service, as the answer to the Router's request for a prompt and to the Responder's
  request for a state.
\<close>

record world =
  openai_api_key :: "ustr option"
  gemini_api_key :: "ustr option"
  use_mock_llm :: "ustr option"
  now_iso :: "ustr option"
  clock :: int
  uni :: unicode
  fromisoformat :: "ustr \<Rightarrow> datetime option"
  float_repr :: "rat \<Rightarrow> ustr"
  products_json :: "product list"
  orders_json :: "order list"
  llm_classify :: "ustr \<Rightarrow> error + ustr"
  llm_compose :: "agent_state \<Rightarrow> error + ustr"

text \<open>The truth value of an optional \<open>str\<close>: set, and not the empty string.\<close>

definition truthy :: "ustr option \<Rightarrow> bool" where
  "truthy v = (case v of None \<Rightarrow> False | Some s \<Rightarrow> s \<noteq> [])"

definition use_llm :: "world \<Rightarrow> bool" where
  "use_llm w = ((truthy (openai_api_key w) \<or> truthy (gemini_api_key w)) \<and> \<not> truthy (use_mock_llm w))"

section \<open>tools.py\<close>

definition parse_iso :: "world \<Rightarrow> ustr \<Rightarrow> error + datetime" where
  "parse_iso w ts =
     (let ts' = (if endswith ts (asc ''Z'') then butlast ts @ asc ''+00:00'' else ts)
      in case fromisoformat w ts' of None \<Rightarrow> Inl ValueError | Some d \<Rightarrow> Inr d)"

definition utcnow :: "world \<Rightarrow> error + datetime" where
  "utcnow w =
     (if truthy (now_iso w) then parse_iso w (case now_iso w of None \<Rightarrow> [] | Some ts \<Rightarrow> ts)
      else Inr (Aware (clock w)))"

definition stop_words :: "ustr list" where
  "stop_words = map asc [''under'', ''less'', ''budget'', ''m'', ''l'', ''xl'', ''s'', ''eta'', ''to'',
                         ''guest'', ''between'', ''im'', ''i'', ''zip'']"

definition over_cap :: "jnum \<Rightarrow> pyfloat \<Rightarrow> bool" where
  "over_cap p cap = (case cap of Finite c \<Rightarrow> c < num_val p | PosInf \<Rightarrow> False)"

definition matches :: "unicode \<Rightarrow> pyfloat option \<Rightarrow> ustr list option \<Rightarrow> ustr list \<Rightarrow> product \<Rightarrow> bool" where
  "matches U price_max tags_arg tokens item =
     (if (case price_max of None \<Rightarrow> False | Some cap \<Rightarrow> over_cap (price item) cap) then False
      else if (case tags_arg of None \<Rightarrow> False | Some ts \<Rightarrow> ts \<noteq> []) then
        (let tagset = set (map (lower U) (case tags_arg of None \<Rightarrow> [] | Some ts \<Rightarrow> ts))
         in if \<not> tagset \<subseteq> set (map (lower U) (tags item)) then False else True)
      else if tokens \<noteq> [] then
        (let hay = lower U (join (asc '' '') [title item, join (asc '' '') (tags item), color item]);
             meaningful = filter (\<lambda>tok. tok \<notin> set stop_words) tokens
         in if meaningful \<noteq> [] then list_ex (\<lambda>tok. str_in tok hay) meaningful else True)
      else True)"

definition sort_key_of :: "product \<Rightarrow> rat \<times> ustr" where
  "sort_key_of x = (num_val (price x), item_id x)"

definition product_search :: "world \<Rightarrow> ustr \<Rightarrow> pyfloat option \<Rightarrow> ustr list option \<Rightarrow> product list" where
  "product_search w query price_max tags_arg =
     (let items = products_json w;
          q = lower (uni w) query;
          tokens = filter (\<lambda>t. t \<noteq> []) (findall_tokens q);
          filtered = filter (matches (uni w) price_max tags_arg tokens) items
      in sort_key sort_key_of filtered)"

definition size_recommender :: "world \<Rightarrow> ustr \<Rightarrow> size_rec" where
  "size_recommender w user_inputs =
     (let text = lower (uni w) user_inputs
      in if str_in (asc ''loose'') text \<or> str_in (asc ''oversized'') text
         then \<lparr>recommended = asc ''L'',
               rationale = asc ''You prefer a looser fit; L should feel roomier. Choose M for a snugger fit.''\<rparr>
         else \<lparr>recommended = asc ''M'',
               rationale = asc ''You mentioned you're between M and L; we suggest M for a closer fit or L if you prefer a roomier feel.''\<rparr>)"

definition eta :: "ustr \<Rightarrow> eta_rec" where
  "eta zip_code =
     (let z = zip_code;
          window = (if startswith z (asc ''56'') then asc ''3'' @ en_dash @ asc ''5 business days''
                    else if startswith z (asc ''10'') \<or> startswith z (asc ''11'')
                            \<or> startswith z (asc ''12'')
                    then asc ''2'' @ en_dash @ asc ''3 business days''
                    else asc ''2'' @ en_dash @ asc ''5 business days'')
      in \<lparr>eta_zip = z, eta_window = window\<rparr>)"

definition order_lookup :: "world \<Rightarrow> ustr \<Rightarrow> ustr \<Rightarrow> order option" where
  "order_lookup w oid em =
     find (\<lambda>x. lower (uni w) (order_id x) = lower (uni w) oid
               \<and> lower (uni w) (email x) = lower (uni w) em) (orders_json w)"

text \<open>The elapsed minutes, \<open>(now - created).total_seconds() / 60.0\<close>, and \<open>60.0 + 1e-9\<close>.\<close>

definition elapsed_minutes :: "int \<Rightarrow> rat" where
  "elapsed_minutes us = fl (total_seconds us / 60)"

definition threshold :: rat where
  "threshold = fl (60 + fl (1 / 1000000000))"

definition order_cancel :: "world \<Rightarrow> ustr \<Rightarrow> ustr option \<Rightarrow> error + decision" where
  "order_cancel w oid timestamp_iso =
     (case find (\<lambda>x. lower (uni w) (order_id x) = lower (uni w) oid) (orders_json w) of
        None \<Rightarrow> Inr \<lparr>cancel_allowed = False, reason = ''order_not_found''\<rparr>
      | Some found \<Rightarrow>
          (case parse_iso w (created_at found) of
             Inl e \<Rightarrow> Inl e
           | Inr created \<Rightarrow>
               (case (if truthy timestamp_iso
                      then parse_iso w (case timestamp_iso of None \<Rightarrow> [] | Some ts \<Rightarrow> ts)
                      else utcnow w) of
                  Inl e \<Rightarrow> Inl e
                | Inr now \<Rightarrow>
                    (case dt_sub now created of
                       Inl e \<Rightarrow> Inl e
                     | Inr us \<Rightarrow>
                         (let delta = elapsed_minutes us
                          in if delta \<le> threshold
                             then Inr \<lparr>cancel_allowed = True,
                                       reason = ''within_60_min ('' @ format_1f delta @ '' min)''\<rparr>
                             else Inr \<lparr>cancel_allowed = False,
                                       reason = ''>60 min ('' @ format_1f delta @ '' min)''\<rparr>)))))"

section \<open>graph_langgraph.py\<close>

definition order_keywords :: "ustr list" where
  "order_keywords = map asc [''cancel order'', ''order status'', ''order help'', ''where is my order'',
                             ''order '', ''refund'']"

definition product_keywords :: "ustr list" where
  "product_keywords = map asc [''dress'', ''product'', ''wedding'', ''midi'', ''size'', ''eta'', ''zip'']"

text \<open>The intent the Router chooses by rule, when no text-generation service is used.\<close>

definition classify :: "world \<Rightarrow> ustr \<Rightarrow> string" where
  "classify w p =
     (let low = lower (uni w) p
      in if list_ex (\<lambda>k. str_in k low) order_keywords then ''order_help''
         else if list_ex (\<lambda>k. str_in k low) product_keywords then ''product_assist''
         else ''other'')"

definition router_node :: "world \<Rightarrow> agent_state \<Rightarrow> error + agent_state" where
  "router_node w state =
     (let p = s_prompt state
      in case (if use_llm w
               then (case llm_classify w p of
                       Inl e \<Rightarrow> Inl e
                     | Inr text \<Rightarrow>
                         Inr (if str_in (asc ''product'') text then ''product_assist''
                              else if str_in (asc ''order'') text then ''order_help'' else ''other''))
               else Inr (classify w p)) of
           Inl e \<Rightarrow> Inl e
         | Inr intent \<Rightarrow>
             Inr (state\<lparr>s_intent := Some intent, s_tools_called := Some [], s_evidence := Some []\<rparr>))"

text \<open>The parameters the Tool Selector reads from the prompt.\<close>

definition extract_price_cap :: "world \<Rightarrow> ustr \<Rightarrow> pyfloat option" where
  "extract_price_cap w prompt =
     map_option (float_of_digits (uni w)) (re_search (uni w) under_re (lower (uni w) prompt))"

definition extract_tags :: "world \<Rightarrow> ustr \<Rightarrow> ustr list" where
  "extract_tags w prompt =
     (if str_in (asc ''wedding'') (lower (uni w) prompt) then [asc ''wedding''] else [])
     @ (if str_in (asc ''midi'') (lower (uni w) prompt) then [asc ''midi''] else [])"

definition extract_zip :: "world \<Rightarrow> ustr \<Rightarrow> ustr" where
  "extract_zip w prompt =
     (case re_search (uni w) zip_re prompt of None \<Rightarrow> asc ''00000'' | Some z \<Rightarrow> z)"

definition product_evidence :: "product \<Rightarrow> evidence" where
  "product_evidence p = ProductEvidence (item_id p) (title p) (price p) (sizes p)"

text \<open>The order the Tool Selector looks up, when the prompt gives both identifiers.\<close>

definition lookup_order :: "world \<Rightarrow> ustr \<Rightarrow> order option" where
  "lookup_order w prompt =
     (let oid = re_search (uni w) order_re prompt;
          em = re_search (uni w) email_re prompt
      in if truthy oid \<and> truthy em
         then order_lookup w (case oid of None \<Rightarrow> [] | Some x \<Rightarrow> x)
                (case em of None \<Rightarrow> [] | Some x \<Rightarrow> x)
         else None)"

definition tool_selector_node :: "world \<Rightarrow> agent_state \<Rightarrow> error + agent_state" where
  "tool_selector_node w state =
     (case (s_intent state, s_tools_called state) of
        (Some intent, Some tools_called) \<Rightarrow>
          (let prompt = s_prompt state
           in if intent = ''product_assist'' then
                (let tag_list = extract_tags w prompt;
                     products = product_search w prompt (extract_price_cap w prompt)
                                  (if tag_list = [] then None else Some tag_list);
                     picks = take 2 products
                 in case s_evidence state of
                      None \<Rightarrow> Inl KeyError
                    | Some ev \<Rightarrow>
                        Inr (state\<lparr>s_products := Some picks,
                                   s_size := Some (size_recommender w prompt),
                                   s_eta := Some (eta (extract_zip w prompt)),
                                   s_evidence := Some (ev @ map product_evidence picks),
                                   s_tools_called :=
                                     Some (tools_called @ [''product_search'', ''size_recommender'', ''eta''])\<rparr>))
              else if intent = ''order_help'' then
                (let oid = re_search (uni w) order_re prompt;
                     em = re_search (uni w) email_re prompt;
                     found = lookup_order w prompt
                 in case s_evidence state of
                      None \<Rightarrow> Inl KeyError
                    | Some ev \<Rightarrow>
                        Inr (state\<lparr>s_order_id := Some oid, s_email := Some em, s_order := Some found,
                                   s_evidence := Some (ev @ [OrderEvidence oid em (found \<noteq> None)]),
                                   s_tools_called := Some (tools_called @ [''order_lookup''])\<rparr>))
              else Inr (state\<lparr>s_tools_called := Some tools_called\<rparr>))
      | _ \<Rightarrow> Inl KeyError)"

text \<open>\<open>state.get("order")\<close>: \<open>None\<close> when the key is unset or holds \<open>None\<close>.\<close>

definition get_order :: "agent_state \<Rightarrow> order option" where
  "get_order state = (case s_order state of None \<Rightarrow> None | Some v \<Rightarrow> v)"

definition policy_guard_node :: "world \<Rightarrow> agent_state \<Rightarrow> error + agent_state" where
  "policy_guard_node w state =
     (case s_intent state of
        None \<Rightarrow> Inl KeyError
      | Some intent \<Rightarrow>
          if intent \<noteq> ''order_help'' then Inr (state\<lparr>s_policy_decision := Some None\<rparr>)
          else (case get_order state of
                  None \<Rightarrow>
                    Inr (state\<lparr>s_policy_decision :=
                      Some (Some \<lparr>cancel_allowed = False,
                                  reason = ''order_not_found_or_missing_credentials''\<rparr>)\<rparr>)
                | Some found \<Rightarrow>
                    (case order_cancel w (order_id found) None of
                       Inl e \<Rightarrow> Inl e
                     | Inr d \<Rightarrow> Inr (state\<lparr>s_policy_decision := Some (Some d)\<rparr>))))"

text \<open>\<open>str\<close> of a price, and the messages of the Responder's rule-based branch.\<close>

definition str_num :: "world \<Rightarrow> jnum \<Rightarrow> ustr" where
  "str_num w n = (case n of JInt i \<Rightarrow> asc (str_int i) | JFloat r \<Rightarrow> float_repr w r)"

definition pick_line :: "world \<Rightarrow> product \<Rightarrow> ustr" where
  "pick_line w it =
     bullet @ asc '' '' @ title it @ asc '' '' @ em_dash @ asc '' $'' @ str_num w (price it)
       @ asc '' | sizes: '' @ join (asc '', '') (sizes it)"

definition product_message :: "world \<Rightarrow> agent_state \<Rightarrow> ustr" where
  "product_message w state =
     (let picks = (case s_products state of None \<Rightarrow> [] | Some ps \<Rightarrow> ps)
      in if picks = [] then
           asc ''I couldn't find items that match your filters. If you can relax the budget or tags, I can search again.''
         else
           (let rec = (case s_size state of None \<Rightarrow> asc ''M'' | Some sz \<Rightarrow> recommended sz);
                why = (case s_size state of None \<Rightarrow> [] | Some sz \<Rightarrow> rationale sz);
                eta_text = (case s_eta state of
                              None \<Rightarrow> asc ''2'' @ en_dash @ asc ''5 business days''
                            | Some e \<Rightarrow> eta_window e);
                zip_text = (case s_eta state of None \<Rightarrow> asc ''None'' | Some e \<Rightarrow> eta_zip e)
            in asc ''Here are two options under your budget:'' @ nl
               @ join nl (map (pick_line w) picks)
               @ nl @ nl @ asc ''Size tip: go **'' @ rec @ asc ''**. '' @ why @ nl
               @ asc ''ETA to '' @ zip_text @ asc '': '' @ eta_text @ asc ''.''))"

definition unverified_message :: ustr where
  "unverified_message =
     asc ''I couldn'' @ rsquo
       @ asc ''t verify that order. Please double-check the order ID and email, or I can hand you to support.''"

definition cancelled_message :: "ustr \<Rightarrow> ustr" where
  "cancelled_message oid =
     check_mark @ asc '' Order '' @ oid @ asc '' is cancelled successfully. You'' @ rsquo
       @ asc ''ll see a confirmation email shortly.''"

definition blocked_message :: "ustr \<Rightarrow> string \<Rightarrow> ustr" where
  "blocked_message oid why =
     cross_mark @ asc '' I can'' @ rsquo @ asc ''t cancel order '' @ oid
       @ asc '' because our policy allows cancellations only within 60 minutes of purchase (''
       @ asc why @ asc '').''
       @ nl @ asc ''Next best options:'' @ nl
       @ bullet @ asc '' Edit the delivery address (if the carrier hasn'' @ rsquo
       @ asc ''t picked it up)'' @ nl
       @ bullet @ asc '' Convert to store credit after delivery'' @ nl
       @ bullet @ asc '' Or I can hand you off to a human agent''"

text \<open>
  \<open>state.get("policy_decision", {})\<close> is the empty dictionary while the key is unset, and
  \<open>None\<close>, which has no \<open>get\<close>, when the key holds \<open>None\<close>.
\<close>

definition order_message :: "agent_state \<Rightarrow> error + ustr" where
  "order_message state =
     (case get_order state of
        None \<Rightarrow> Inr unverified_message
      | Some found \<Rightarrow>
          (case s_policy_decision state of
             None \<Rightarrow> Inr (blocked_message (order_id found) ''>60 min'')
           | Some None \<Rightarrow> Inl AttributeError
           | Some (Some d) \<Rightarrow>
               if cancel_allowed d then Inr (cancelled_message (order_id found))
               else Inr (blocked_message (order_id found) (reason d))))"

definition refusal_message :: ustr where
  "refusal_message =
     asc ''I can'' @ rsquo @ asc ''t generate custom discount codes. You can still save by:'' @ nl
       @ bullet @ asc '' Joining our newsletter for first-order perks'' @ nl
       @ bullet @ asc '' Watching seasonal sales on the site'' @ nl
       @ bullet @ asc '' Building a wishlist so we alert you if prices drop''"

definition responder_node :: "world \<Rightarrow> agent_state \<Rightarrow> error + agent_state" where
  "responder_node w state =
     (case s_intent state of
        None \<Rightarrow> Inl KeyError
      | Some intent \<Rightarrow>
          (case (if use_llm w then llm_compose w state
                 else if intent = ''product_assist'' then Inr (product_message w state)
                 else if intent = ''order_help'' then order_message state
                 else Inr refusal_message) of
             Inl e \<Rightarrow> Inl e
           | Inr msg \<Rightarrow> Inr (state\<lparr>s_final_message := Some msg\<rparr>)))"

definition trace_node :: "agent_state \<Rightarrow> error + agent_state" where
  "trace_node state = Inr state"

text \<open>
  The compiled graph: the five nodes in the order of its edges, from the state that
  holds the prompt alone. An exception of a node ends the run.
\<close>

definition then_node :: "error + agent_state \<Rightarrow> (agent_state \<Rightarrow> error + agent_state) \<Rightarrow> error + agent_state" where
  "then_node r f = (case r of Inl e \<Rightarrow> Inl e | Inr st \<Rightarrow> f st)"

definition initial_state :: "ustr \<Rightarrow> agent_state" where
  "initial_state p =
     \<lparr>s_prompt = p, s_intent = None, s_tools_called = None, s_evidence = None,
      s_policy_decision = None, s_final_message = None, s_order = None, s_order_id = None,
      s_email = None, s_products = None, s_size = None, s_eta = None\<rparr>"

definition invoke :: "world \<Rightarrow> ustr \<Rightarrow> error + agent_state" where
  "invoke w p =
     then_node (then_node (then_node (then_node (router_node w (initial_state p))
       (tool_selector_node w)) (policy_guard_node w)) (responder_node w)) trace_node"

record trace =
  t_intent :: "string option"
  t_tools_called :: "string list"
  t_evidence :: "evidence list"
  t_policy_decision :: "decision option"
  t_final_message :: ustr

record agent_result =
  res_trace :: trace
  res_reply :: ustr

definition result_of :: "agent_state \<Rightarrow> agent_result" where
  "result_of out =
     \<lparr>res_trace =
        \<lparr>t_intent = s_intent out,
         t_tools_called = (case s_tools_called out of None \<Rightarrow> [] | Some ts \<Rightarrow> ts),
         t_evidence = (case s_evidence out of None \<Rightarrow> [] | Some ev \<Rightarrow> ev),
         t_policy_decision = (case s_policy_decision out of None \<Rightarrow> None | Some d \<Rightarrow> d),
         t_final_message = (case s_final_message out of None \<Rightarrow> [] | Some m \<Rightarrow> m)\<rparr>,
      res_reply = (case s_final_message out of None \<Rightarrow> [] | Some m \<Rightarrow> m)\<rparr>"

definition run_agent :: "world \<Rightarrow> ustr \<Rightarrow> error + agent_result" where
  "run_agent w p = (case invoke w p of Inl e \<Rightarrow> Inl e | Inr out \<Rightarrow> Inr (result_of out))"

section \<open>A world for the examples\<close>

text \<open>
  A fragment of \<open>datetime.fromisoformat\<close>, enough for the timestamps of the test driver:
  \<^verbatim>\<open>YYYY-MM-DDTHH:MM:SS\<close>, naive, or aware with an offset \<^verbatim>\<open>+HH:MM\<close> or \<^verbatim>\<open>-HH:MM\<close>
  after it. It stands for the parameter \<open>fromisoformat\<close> in the examples only; no theorem
  about every world rests on it.
\<close>

definition all_digits :: "ustr \<Rightarrow> bool" where
  "all_digits s = list_all (\<lambda>c. 48 \<le> c \<and> c \<le> 57) s"

definition field :: "nat \<Rightarrow> nat \<Rightarrow> ustr \<Rightarrow> ustr" where
  "field a n s = take n (drop a s)"

definition field_int :: "nat \<Rightarrow> nat \<Rightarrow> ustr \<Rightarrow> int" where
  "field_int a n s = foldl (\<lambda>k c. 10 * k + (c - 48)) 0 (field a n s)"

definition leap_year :: "int \<Rightarrow> bool" where
  "leap_year y = (y mod 4 = 0 \<and> (y mod 100 \<noteq> 0 \<or> y mod 400 = 0))"

definition days_in_month :: "int \<Rightarrow> int \<Rightarrow> int" where
  "days_in_month y m =
     (if m = 2 then (if leap_year y then 29 else 28)
      else if m = 4 \<or> m = 6 \<or> m = 9 \<or> m = 11 then 30 else 31)"

text \<open>The days from 1970-01-01 to a date of the proleptic Gregorian calendar.\<close>

definition days_from_civil :: "int \<Rightarrow> int \<Rightarrow> int \<Rightarrow> int" where
  "days_from_civil y m d =
     (let y' = (if m \<le> 2 then y - 1 else y);
          era = y' div 400;
          yoe = y' - era * 400;
          doy = (153 * (if 2 < m then m - 3 else m + 9) + 2) div 5 + d - 1;
          doe = yoe * 365 + yoe div 4 - yoe div 100 + doy
      in era * 146097 + doe - 719468)"

text \<open>The offset: \<open>None\<close> when malformed, \<open>Some None\<close> when absent, else its seconds.\<close>

definition iso_offset :: "ustr \<Rightarrow> int option option" where
  "iso_offset s =
     (if s = [] then Some None
      else if length s = 6 \<and> (field 0 1 s = asc ''+'' \<or> field 0 1 s = asc ''-'')
              \<and> field 3 1 s = asc '':''
              \<and> all_digits (field 1 2 s @ field 4 2 s)
              \<and> field_int 1 2 s < 24 \<and> field_int 4 2 s < 60
      then Some (Some ((if field 0 1 s = asc ''-'' then - 1 else 1)
                       * (field_int 1 2 s * 3600 + field_int 4 2 s * 60)))
      else None)"

definition iso_basic :: "ustr \<Rightarrow> datetime option" where
  "iso_basic s =
     (let y = field_int 0 4 s; m = field_int 5 2 s; d = field_int 8 2 s;
          hh = field_int 11 2 s; mi = field_int 14 2 s; ss = field_int 17 2 s
      in if 19 \<le> length s
            \<and> all_digits (field 0 4 s @ field 5 2 s @ field 8 2 s @ field 11 2 s @ field 14 2 s
                           @ field 17 2 s)
            \<and> field 4 1 s = asc ''-'' \<and> field 7 1 s = asc ''-'' \<and> field 10 1 s = asc ''T''
            \<and> field 13 1 s = asc '':'' \<and> field 16 1 s = asc '':''
            \<and> 1 \<le> y \<and> 1 \<le> m \<and> m \<le> 12 \<and> 1 \<le> d \<and> d \<le> days_in_month y m
            \<and> hh < 24 \<and> mi < 60 \<and> ss < 60
         then (let secs = days_from_civil y m d * 86400 + hh * 3600 + mi * 60 + ss
               in case iso_offset (drop 19 s) of
                    None \<Rightarrow> None
                  | Some None \<Rightarrow> Some (Naive (secs * 1000000))
                  | Some (Some off) \<Rightarrow> Some (Aware ((secs - off) * 1000000)))
         else None)"

text \<open>
  A fragment of the Unicode database, with a few code points as Python has them: the
  full-width digits \<open>U+FF10\<close> to \<open>U+FF19\<close> are decimal digits; \<open>U+00E9\<close> (e with acute)
  is a letter; \<open>U+0130\<close> (capital I with dot above) is a letter and lowers to \<open>i\<close>
  followed by \<open>U+0307\<close>; \<open>U+00A0\<close> is a space. It stands for the parameter \<open>uni\<close> in
  the examples only.
\<close>

definition lower_fragment :: "int \<Rightarrow> ustr" where
  "lower_fragment c = (if c = 0x130 then [0x69, 0x307] else [lower_ascii c])"

definition demo_unicode :: unicode where
  "demo_unicode =
     \<lparr>uni_lower = (\<lambda>s. concat (map lower_fragment s)),
      uni_decimal = (\<lambda>c. 0xFF10 \<le> c \<and> c \<le> 0xFF19),
      uni_digit_value = (\<lambda>c. c - 0xFF10),
      uni_space = (\<lambda>c. c = 0xA0),
      uni_alnum = (\<lambda>c. (0xFF10 \<le> c \<and> c \<le> 0xFF19) \<or> c = 0xE9 \<or> c = 0x130)\<rparr>"

text \<open>
  Rule-based mode (no key of a text-generation service is set), three products and the
  two orders the test driver asks about, with an evaluation time injected.
\<close>

definition demo_products :: "product list" where
  "demo_products =
     [\<lparr>item_id = asc ''P3'', title = asc ''Silk Gown'', price = JInt 240,
       sizes = [asc ''M'', asc ''L''], tags = [asc ''wedding'', asc ''maxi''], color = asc ''Red''\<rparr>,
      \<lparr>item_id = asc ''P2'', title = asc ''Satin Slip Dress'', price = JInt 99,
       sizes = [asc ''XS'', asc ''S'', asc ''M''],
       tags = [asc ''wedding'', asc ''party'', asc ''midi''], color = asc ''Blush''\<rparr>,
      \<lparr>item_id = asc ''P1'', title = asc ''Midi Wrap Dress'', price = JInt 119,
       sizes = [asc ''S'', asc ''M'', asc ''L''],
       tags = [asc ''wedding'', asc ''midi''], color = asc ''Charcoal''\<rparr>]"

definition order_a1002 :: order where
  "order_a1002 =
     \<lparr>order_id = asc ''A1002'', email = asc ''alex@example.com'',
      created_at = asc ''2025-09-06T13:05:00Z''\<rparr>"

definition order_a1003 :: order where
  "order_a1003 =
     \<lparr>order_id = asc ''A1003'', email = asc ''mira@example.com'',
      created_at = asc ''2025-09-07T11:55:00Z''\<rparr>"

definition demo_orders :: "order list" where
  "demo_orders = [order_a1002, order_a1003]"

definition demo_world :: world where
  "demo_world =
     \<lparr>openai_api_key = None, gemini_api_key = None, use_mock_llm = None,
      now_iso = Some (asc ''2025-09-07T12:40:00Z''), clock = 0, uni = demo_unicode,
      fromisoformat = iso_basic, float_repr = (\<lambda>r. []),
      products_json = demo_products, orders_json = demo_orders,
      llm_classify = (\<lambda>p. Inl LLMError), llm_compose = (\<lambda>st. Inl LLMError)\<rparr>"

text \<open>The prompts of the test driver's four cases, and two more.\<close>

definition scenario_1 :: ustr where
  "scenario_1 =
     asc ''Wedding guest, midi, under $120 '' @ em_dash @ asc '' I'm between M/L. ETA to 560001?''"

definition scenario_2 :: ustr where
  "scenario_2 = asc ''Cancel order A1003 '' @ em_dash @ asc '' email mira@example.com.''"

definition scenario_3 :: ustr where
  "scenario_3 = asc ''Cancel order A1002 '' @ em_dash @ asc '' email alex@example.com.''"

definition scenario_4 :: ustr where
  "scenario_4 = asc ''Can you give me a discount code that doesn'' @ rsquo @ asc ''t exist?''"

definition no_email_prompt :: ustr where
  "no_email_prompt = asc ''Cancel order A1003 please''"

definition no_zip_prompt :: ustr where
  "no_zip_prompt = asc ''Show me a midi dress''"

text \<open>
  Prompts beyond ASCII: a zip code in full-width digits, five digits after a letter with
  an accent, \<open>MID\<close> with \<open>U+0130\<close>, and an order id in full-width digits.
\<close>

definition wide_zip :: ustr where
  "wide_zip = [0xFF15, 0xFF16, 0xFF10, 0xFF10, 0xFF10, 0xFF11]"

definition wide_zip_prompt :: ustr where
  "wide_zip_prompt = asc ''dress '' @ wide_zip"

definition dotted_midi_prompt :: ustr where
  "dotted_midi_prompt = asc ''MID'' @ [0x130]"

definition accent_prompt :: ustr where
  "accent_prompt = asc ''dress '' @ [0xE9] @ asc ''12345''"

definition wide_id :: ustr where
  "wide_id = asc ''A'' @ [0xFF11, 0xFF12, 0xFF13, 0xFF14]"

definition wide_id_prompt :: ustr where
  "wide_id_prompt = asc ''cancel order '' @ wide_id @ asc '' mira@example.com''"




definition world_case_3 :: world where
  "world_case_3 = demo_world\<lparr>now_iso := Some (asc ''2025-09-06T15:10:00Z'')\<rparr>"




section \<open>The pipeline, stage by stage\<close>

lemma init_sel:
  "s_prompt (initial_state p) = p" "s_intent (initial_state p) = None"
  "s_tools_called (initial_state p) = None" "s_evidence (initial_state p) = None"
  "s_policy_decision (initial_state p) = None" "s_final_message (initial_state p) = None"
  "s_order (initial_state p) = None" "s_order_id (initial_state p) = None"
  "s_email (initial_state p) = None" "s_products (initial_state p) = None"
  "s_size (initial_state p) = None" "s_eta (initial_state p) = None"
  by (simp_all add: initial_state_def)

lemma demo_rule_based: "\<not> use_llm demo_world"
  by (simp add: use_llm_def demo_world_def truthy_def)

lemma classify_cases:
  "classify w p = ''order_help'' \<or> classify w p = ''product_assist'' \<or> classify w p = ''other''"
  by (simp add: classify_def Let_def)

lemma router_det:
  "\<not> use_llm w \<Longrightarrow> router_node w (initial_state p) =
     Inr ((initial_state p)\<lparr>s_intent := Some (classify w p), s_tools_called := Some [],
                            s_evidence := Some []\<rparr>)"
  by (simp add: router_node_def init_sel)

lemma invoke_other:
  assumes "\<not> use_llm w" and "classify w p = ''other''"
  shows "invoke w p =
    Inr ((initial_state p)\<lparr>s_intent := Some ''other'', s_tools_called := Some [],
           s_evidence := Some [], s_policy_decision := Some None,
           s_final_message := Some refusal_message\<rparr>)"
  using assms
  by (simp add: invoke_def router_det then_node_def tool_selector_node_def policy_guard_node_def
      responder_node_def trace_node_def init_sel)

lemma invoke_product:
  assumes "\<not> use_llm w" and "classify w p = ''product_assist''"
  shows "invoke w p =
    (let picks = take 2 (product_search w p (extract_price_cap w p)
                     (if extract_tags w p = [] then None else Some (extract_tags w p)));
         st = (initial_state p)\<lparr>s_intent := Some ''product_assist'',
           s_products := Some picks, s_size := Some (size_recommender w p),
           s_eta := Some (eta (extract_zip w p)),
           s_evidence := Some (map product_evidence picks),
           s_tools_called := Some [''product_search'', ''size_recommender'', ''eta''],
           s_policy_decision := Some None\<rparr>
     in Inr (st\<lparr>s_final_message := Some (product_message w st)\<rparr>))"
  using assms
  by (simp add: invoke_def router_det then_node_def tool_selector_node_def policy_guard_node_def
      responder_node_def trace_node_def Let_def init_sel)

lemma invoke_order:
  assumes "\<not> use_llm w" and "classify w p = ''order_help''"
  shows "invoke w p =
    (let oid = re_search (uni w) order_re p; em = re_search (uni w) email_re p;
         found = lookup_order w p;
         st = (initial_state p)\<lparr>s_intent := Some ''order_help'', s_order_id := Some oid,
                s_email := Some em, s_order := Some found,
                s_evidence := Some [OrderEvidence oid em (found \<noteq> None)],
                s_tools_called := Some [''order_lookup'']\<rparr>
     in case found of
          None \<Rightarrow>
            Inr (st\<lparr>s_policy_decision :=
                      Some (Some \<lparr>cancel_allowed = False,
                                  reason = ''order_not_found_or_missing_credentials''\<rparr>),
                    s_final_message := Some unverified_message\<rparr>)
        | Some f \<Rightarrow>
            (case order_cancel w (order_id f) None of
               Inl e \<Rightarrow> Inl e
             | Inr d \<Rightarrow>
                 Inr (st\<lparr>s_policy_decision := Some (Some d),
                         s_final_message :=
                           Some (if cancel_allowed d then cancelled_message (order_id f)
                                 else blocked_message (order_id f) (reason d))\<rparr>)))"
  using assms
  by (simp add: invoke_def router_det then_node_def tool_selector_node_def policy_guard_node_def
      responder_node_def trace_node_def Let_def init_sel get_order_def order_message_def
      split: option.split sum.split)

lemma sorted_wrt_key:
  "sorted (map sort_key_of xs) =
   sorted_wrt (\<lambda>a b. num_val (price a) < num_val (price b)
                 \<or> (num_val (price a) = num_val (price b) \<and> item_id a \<le> item_id b)) xs"
proof -
  have "(\<lambda>a b. sort_key_of a \<le> sort_key_of b) =
        (\<lambda>a b. num_val (price a) < num_val (price b)
                 \<or> (num_val (price a) = num_val (price b) \<and> item_id a \<le> item_id b))"
    by (intro ext) (auto simp: sort_key_of_def less_eq_prod_def)
  then show ?thesis
    by (simp add: sorted_map)
qed

lemma product_search_demo:
  "map item_id (product_search demo_world (asc ''midi dress'') None (Some [asc ''wedding'']))
     = [asc ''P2'', asc ''P1'', asc ''P3'']"
  by code_simp





















text \<open>
  In rule-based mode, with an evaluation time injected, no stage reads the clock or the
  text-generation service.
\<close>

lemma order_cancel_clock_free:
  assumes "truthy (now_iso w)"
  shows "order_cancel (w\<lparr>clock := c, llm_classify := lc, llm_compose := lm\<rparr>) oid None
           = order_cancel w oid None"
proof -
  have p: "parse_iso (w\<lparr>clock := c, llm_classify := lc, llm_compose := lm\<rparr>) ts = parse_iso w ts"
    for ts
    by (simp add: parse_iso_def)
  have u: "utcnow (w\<lparr>clock := c, llm_classify := lc, llm_compose := lm\<rparr>) = utcnow w"
    using assms by (simp add: utcnow_def p)
  show ?thesis
    by (simp add: order_cancel_def p u truthy_def cong: option.case_cong sum.case_cong)
qed

lemma invoke_clock_free:
  assumes "\<not> use_llm w" and "truthy (now_iso w)"
  shows "invoke (w\<lparr>clock := c, llm_classify := lc, llm_compose := lm\<rparr>) p = invoke w p"
proof -
  define w' where "w' = w\<lparr>clock := c, llm_classify := lc, llm_compose := lm\<rparr>"
  have u: "\<not> use_llm w'" using assms(1) by (simp add: w'_def use_llm_def)
  have cl: "classify w' p = classify w p" by (simp add: w'_def classify_def)
  have ps: "product_search w' = product_search w"
    by (intro ext) (simp add: w'_def product_search_def)
  have ex: "extract_price_cap w' p = extract_price_cap w p" "extract_tags w' p = extract_tags w p"
    "extract_zip w' p = extract_zip w p" "size_recommender w' p = size_recommender w p"
    by (simp_all add: w'_def extract_price_cap_def extract_tags_def extract_zip_def
        size_recommender_def)
  have pl: "pick_line w' = pick_line w"
    by (intro ext) (simp add: w'_def pick_line_def str_num_def split: jnum.split)
  have pm: "product_message w' = product_message w"
    by (intro ext) (unfold product_message_def pl, rule refl)
  have un: "uni w' = uni w" by (simp add: w'_def)
  have ol: "order_lookup w' = order_lookup w"
    by (intro ext) (simp add: w'_def order_lookup_def)
  have lo: "lookup_order w' p = lookup_order w p"
    by (unfold lookup_order_def ol un, rule refl)
  have oc: "order_cancel w' oid None = order_cancel w oid None" for oid
    unfolding w'_def using assms(2) by (rule order_cancel_clock_free)
  consider (o) "classify w p = ''order_help''" | (pa) "classify w p = ''product_assist''"
    | (ot) "classify w p = ''other''"
    using classify_cases by blast
  then have "invoke w' p = invoke w p"
  proof cases
    case ot
    with invoke_other [OF assms(1)] invoke_other [OF u] cl show ?thesis by simp
  next
    case pa
    with invoke_product [OF assms(1)] invoke_product [OF u] cl ps ex pm show ?thesis by simp
  next
    case o
    then have o': "classify w' p = ''order_help''" using cl by simp
    show ?thesis
      by (subst invoke_order [OF u o'], subst invoke_order [OF assms(1) o])
         (unfold lo un oc, rule refl)
  qed
  then show ?thesis by (simp add: w'_def)
qed


section \<open>The claims\<close>

text \<open>
  C2. In rule-based mode, a prompt whose lower-cased text contains one of the order
  keywords is classified \<open>order_help\<close> by the Router, whatever else it contains
  (a product keyword too): the order keywords are looked for first. The Router also
  resets \<open>tools_called\<close> and \<open>evidence\<close>.
\<close>

theorem router_order_keyword_first:
  assumes "\<not> use_llm w"
    and "k \<in> set order_keywords"
    and "str_in k (lower (uni w) (s_prompt state))"
  shows "router_node w state =
           Inr (state\<lparr>s_intent := Some ''order_help'', s_tools_called := Some [],
                      s_evidence := Some []\<rparr>)"
proof -
  have "list_ex (\<lambda>k. str_in k (lower (uni w) (s_prompt state))) order_keywords"
    using assms(2,3) by (auto simp: list_ex_iff)
  then have "classify w (s_prompt state) = ''order_help''"
    by (simp add: classify_def)
  with assms(1) show ?thesis
    by (simp add: router_node_def)
qed

theorem router_order_keyword_first_witness:
  "\<not> use_llm demo_world
   \<and> asc ''refund'' \<in> set order_keywords
   \<and> str_in (asc ''refund'') (lower (uni demo_world) (asc ''Refund my wedding dress''))
   \<and> str_in (asc ''wedding'') (lower (uni demo_world) (asc ''Refund my wedding dress''))
   \<and> asc ''wedding'' \<in> set product_keywords
   \<and> router_node demo_world (initial_state (asc ''Refund my wedding dress'')) =
       Inr ((initial_state (asc ''Refund my wedding dress''))
              \<lparr>s_intent := Some ''order_help'', s_tools_called := Some [], s_evidence := Some []\<rparr>)"
proof -
  have a: "\<not> use_llm demo_world" by (rule demo_rule_based)
  have b: "asc ''refund'' \<in> set order_keywords" by (simp add: order_keywords_def)
  have c: "str_in (asc ''refund'')
             (lower (uni demo_world) (s_prompt (initial_state (asc ''Refund my wedding dress''))))"
    by code_simp
  have d: "str_in (asc ''wedding'') (lower (uni demo_world) (asc ''Refund my wedding dress''))"
    by code_simp
  have e: "asc ''wedding'' \<in> set product_keywords" by (simp add: product_keywords_def)
  from router_order_keyword_first [OF a b c] a b c d e show ?thesis
    by (simp add: init_sel)
qed

text \<open>
  C10. In rule-based mode, for a prompt whose lower-cased text contains neither an order
  keyword nor a product keyword (the empty prompt is one), \<open>run_agent\<close> returns the intent
  \<open>other\<close>, no tool call, no evidence, no policy decision, and the fixed message that
  refuses discount codes, as \<open>final_message\<close> and as \<open>reply\<close>.
\<close>

theorem run_agent_other:
  assumes "\<not> use_llm w"
    and "\<not> list_ex (\<lambda>k. str_in k (lower (uni w) p)) order_keywords"
    and "\<not> list_ex (\<lambda>k. str_in k (lower (uni w) p)) product_keywords"
  shows "run_agent w p =
           Inr \<lparr>res_trace = \<lparr>t_intent = Some ''other'', t_tools_called = [], t_evidence = [],
                             t_policy_decision = None, t_final_message = refusal_message\<rparr>,
                res_reply = refusal_message\<rparr>"
proof -
  have "classify w p = ''other''"
    using assms(2,3) by (simp add: classify_def)
  then have "invoke w p =
    Inr ((initial_state p)\<lparr>s_intent := Some ''other'', s_tools_called := Some [],
           s_evidence := Some [], s_policy_decision := Some None,
           s_final_message := Some refusal_message\<rparr>)"
    using assms(1) by (rule invoke_other [rotated])
  then show ?thesis
    by (simp add: run_agent_def result_of_def)
qed

text \<open>
  The prompt of the test driver's fourth case and the empty prompt are two such prompts.
  \<open>MID\<close> followed by \<open>U+0130\<close> is not: lower-cased, it contains \<open>midi\<close>.
\<close>

theorem run_agent_other_witness:
  "\<not> use_llm demo_world
   \<and> \<not> list_ex (\<lambda>k. str_in k (lower (uni demo_world) scenario_4)) order_keywords
   \<and> \<not> list_ex (\<lambda>k. str_in k (lower (uni demo_world) scenario_4)) product_keywords
   \<and> run_agent demo_world scenario_4 =
       Inr \<lparr>res_trace = \<lparr>t_intent = Some ''other'', t_tools_called = [], t_evidence = [],
                         t_policy_decision = None, t_final_message = refusal_message\<rparr>,
            res_reply = refusal_message\<rparr>
   \<and> \<not> list_ex (\<lambda>k. str_in k (lower (uni demo_world) [])) order_keywords
   \<and> \<not> list_ex (\<lambda>k. str_in k (lower (uni demo_world) [])) product_keywords
   \<and> run_agent demo_world [] =
       Inr \<lparr>res_trace = \<lparr>t_intent = Some ''other'', t_tools_called = [], t_evidence = [],
                         t_policy_decision = None, t_final_message = refusal_message\<rparr>,
            res_reply = refusal_message\<rparr>
   \<and> list_ex (\<lambda>k. str_in k (lower (uni demo_world) dotted_midi_prompt)) product_keywords"
proof -
  have a: "\<not> use_llm demo_world" by (rule demo_rule_based)
  have b: "\<not> list_ex (\<lambda>k. str_in k (lower (uni demo_world) scenario_4)) order_keywords"
    by code_simp
  have c: "\<not> list_ex (\<lambda>k. str_in k (lower (uni demo_world) scenario_4)) product_keywords"
    by code_simp
  have b': "\<not> list_ex (\<lambda>k. str_in k (lower (uni demo_world) [])) order_keywords"
    by code_simp
  have c': "\<not> list_ex (\<lambda>k. str_in k (lower (uni demo_world) [])) product_keywords"
    by code_simp
  have d: "list_ex (\<lambda>k. str_in k (lower (uni demo_world) dotted_midi_prompt)) product_keywords"
    by code_simp
  from run_agent_other [OF a b c] run_agent_other [OF a b' c'] a b c b' c' d show ?thesis
    by simp
qed

text \<open>
  C6. In rule-based mode, for an \<open>order_help\<close> prompt from which the order id or the
  email cannot be extracted, the order lookup is skipped (the result is the same whatever
  the orders are) and the order counts as not found: the Policy Guard decides
  \<open>cancel_allowed = False\<close> with the reason \<open>order_not_found_or_missing_credentials\<close>, the
  run completes, \<open>order_lookup\<close> is recorded in \<open>tools_called\<close>, and one evidence entry
  holds the order id, the email and the flag \<open>found = False\<close>.
\<close>

theorem missing_credentials:
  assumes "\<not> use_llm w"
    and "classify w p = ''order_help''"
    and "re_search (uni w) order_re p = None \<or> re_search (uni w) email_re p = None"
  shows "invoke w p =
           Inr ((initial_state p)
                  \<lparr>s_intent := Some ''order_help'',
                   s_order_id := Some (re_search (uni w) order_re p),
                   s_email := Some (re_search (uni w) email_re p),
                   s_order := Some None,
                   s_evidence := Some [OrderEvidence (re_search (uni w) order_re p)
                                         (re_search (uni w) email_re p) False],
                   s_tools_called := Some [''order_lookup''],
                   s_policy_decision :=
                     Some (Some \<lparr>cancel_allowed = False,
                                 reason = ''order_not_found_or_missing_credentials''\<rparr>),
                   s_final_message := Some unverified_message\<rparr>)
         \<and> run_agent w p =
           Inr \<lparr>res_trace =
                  \<lparr>t_intent = Some ''order_help'', t_tools_called = [''order_lookup''],
                   t_evidence = [OrderEvidence (re_search (uni w) order_re p)
                                   (re_search (uni w) email_re p) False],
                   t_policy_decision =
                     Some \<lparr>cancel_allowed = False,
                           reason = ''order_not_found_or_missing_credentials''\<rparr>,
                   t_final_message = unverified_message\<rparr>,
                res_reply = unverified_message\<rparr>
         \<and> invoke (w\<lparr>orders_json := os\<rparr>) p = invoke w p"
proof -
  have nt: "lookup_order w' p = None" if "uni w' = uni w" for w'
    using assms(3) that by (auto simp: lookup_order_def truthy_def)
  have a: "invoke w' p = Inr ((initial_state p)
                  \<lparr>s_intent := Some ''order_help'',
                   s_order_id := Some (re_search (uni w) order_re p),
                   s_email := Some (re_search (uni w) email_re p),
                   s_order := Some None,
                   s_evidence := Some [OrderEvidence (re_search (uni w) order_re p)
                                         (re_search (uni w) email_re p) False],
                   s_tools_called := Some [''order_lookup''],
                   s_policy_decision :=
                     Some (Some \<lparr>cancel_allowed = False,
                                 reason = ''order_not_found_or_missing_credentials''\<rparr>),
                   s_final_message := Some unverified_message\<rparr>)"
    if "\<not> use_llm w'" and "uni w' = uni w" and "classify w' p = ''order_help''" for w'
    using invoke_order [OF that(1,3)] nt [OF that(2)] that(2) by (simp add: Let_def)
  have u: "\<not> use_llm (w\<lparr>orders_json := os\<rparr>)"
    using assms(1) by (simp add: use_llm_def)
  have c: "classify (w\<lparr>orders_json := os\<rparr>) p = ''order_help''"
    using assms(2) by (simp add: classify_def)
  show ?thesis
    using a [OF assms(1) refl assms(2)] a [OF u _ c]
    by (simp add: run_agent_def result_of_def init_sel)
qed

text \<open>
  A prompt without an email is one. A prompt whose order id is written in full-width
  digits is not: the pattern of the order id finds it, and the lookup is made.
\<close>

theorem missing_credentials_witness:
  "\<not> use_llm demo_world
   \<and> classify demo_world no_email_prompt = ''order_help''
   \<and> (re_search (uni demo_world) order_re no_email_prompt = None
      \<or> re_search (uni demo_world) email_re no_email_prompt = None)
   \<and> run_agent demo_world no_email_prompt =
       Inr \<lparr>res_trace =
              \<lparr>t_intent = Some ''order_help'', t_tools_called = [''order_lookup''],
               t_evidence = [OrderEvidence (Some (asc ''A1003'')) None False],
               t_policy_decision =
                 Some \<lparr>cancel_allowed = False,
                       reason = ''order_not_found_or_missing_credentials''\<rparr>,
               t_final_message = unverified_message\<rparr>,
            res_reply = unverified_message\<rparr>
   \<and> re_search (uni demo_world) order_re wide_id_prompt = Some wide_id
   \<and> re_search (uni demo_world) email_re wide_id_prompt = Some (asc ''mira@example.com'')"
proof -
  have a: "\<not> use_llm demo_world" by (rule demo_rule_based)
  have b: "classify demo_world no_email_prompt = ''order_help''" by code_simp
  have e: "re_search (uni demo_world) email_re no_email_prompt = None" by code_simp
  have o: "re_search (uni demo_world) order_re no_email_prompt = Some (asc ''A1003'')"
    by code_simp
  have c: "re_search (uni demo_world) order_re no_email_prompt = None
           \<or> re_search (uni demo_world) email_re no_email_prompt = None"
    using e by simp
  have x: "re_search (uni demo_world) order_re wide_id_prompt = Some wide_id" by code_simp
  have y: "re_search (uni demo_world) email_re wide_id_prompt = Some (asc ''mira@example.com'')"
    by code_simp
  from missing_credentials [OF a b c] a b c x y show ?thesis
    by (simp add: e o)
qed

text \<open>
  C3. In rule-based mode, when the pipeline has run, the intent is one of the three, the
  working fields of an intent that was not taken are unset (\<open>order\<close>, \<open>order_id\<close> and
  \<open>email\<close> when the intent is \<open>product_assist\<close> or \<open>other\<close>; \<open>products\<close>, \<open>size\<close> and
  \<open>eta\<close> when it is \<open>order_help\<close> or \<open>other\<close>), and \<open>policy_decision\<close> holds a decision
  exactly when the intent is \<open>order_help\<close>.
\<close>

theorem unused_fields_unset:
  assumes "\<not> use_llm w" and "invoke w p = Inr st"
  shows "(s_intent st = Some ''product_assist'' \<or> s_intent st = Some ''order_help''
            \<or> s_intent st = Some ''other'')
       \<and> (s_intent st = Some ''product_assist'' \<longrightarrow>
             s_order st = None \<and> s_order_id st = None \<and> s_email st = None)
       \<and> (s_intent st = Some ''order_help'' \<or> s_intent st = Some ''other'' \<longrightarrow>
             s_products st = None \<and> s_size st = None \<and> s_eta st = None)
       \<and> (s_intent st = Some ''other'' \<longrightarrow>
             s_order st = None \<and> s_order_id st = None \<and> s_email st = None)
       \<and> ((\<exists>d. s_policy_decision st = Some (Some d)) \<longleftrightarrow> s_intent st = Some ''order_help'')"
proof -
  consider (o) "classify w p = ''order_help''" | (pa) "classify w p = ''product_assist''"
    | (ot) "classify w p = ''other''"
    using classify_cases by blast
  then show ?thesis
  proof cases
    case ot
    from invoke_other [OF assms(1) ot] assms(2) show ?thesis
      by (auto simp: init_sel)
  next
    case pa
    from invoke_product [OF assms(1) pa] assms(2) show ?thesis
      by (auto simp: init_sel Let_def)
  next
    case o
    from invoke_order [OF assms(1) o] assms(2) show ?thesis
      by (auto simp: init_sel Let_def split: option.splits sum.splits if_splits)
  qed
qed

theorem unused_fields_unset_witness:
  "\<not> use_llm demo_world
   \<and> (\<exists>st. invoke demo_world no_email_prompt = Inr st
         \<and> s_intent st = Some ''order_help''
         \<and> s_products st = None \<and> s_size st = None \<and> s_eta st = None
         \<and> (\<exists>d. s_policy_decision st = Some (Some d)))"
proof -
  have a: "\<not> use_llm demo_world" by (rule demo_rule_based)
  have b: "classify demo_world no_email_prompt = ''order_help''" by code_simp
  have e: "re_search (uni demo_world) email_re no_email_prompt = None" by code_simp
  obtain st where st: "invoke demo_world no_email_prompt = Inr st"
    and i: "s_intent st = Some ''order_help''"
    using invoke_order [OF a b] e by (simp add: Let_def truthy_def lookup_order_def)
  from unused_fields_unset [OF a st] i st a show ?thesis
    by auto
qed

text \<open>
  C9. In rule-based mode, for a \<open>product_assist\<close> prompt in which the pattern of the postal
  code (a token of five or six digits) finds nothing, the delivery estimate is asked for
  \<open>00000\<close>: the state records that zip with the window of the catch-all rule, and \<open>eta\<close>
  is the third tool called.
\<close>

theorem default_zip:
  assumes "\<not> use_llm w"
    and "classify w p = ''product_assist''"
    and "re_search (uni w) zip_re p = None"
  shows "extract_zip w p = asc ''00000''
       \<and> eta (extract_zip w p) =
           \<lparr>eta_zip = asc ''00000'', eta_window = asc ''2'' @ en_dash @ asc ''5 business days''\<rparr>
       \<and> (\<exists>st. invoke w p = Inr st
              \<and> s_eta st = Some \<lparr>eta_zip = asc ''00000'',
                                 eta_window = asc ''2'' @ en_dash @ asc ''5 business days''\<rparr>
              \<and> s_tools_called st = Some [''product_search'', ''size_recommender'', ''eta''])"
proof -
  have z: "extract_zip w p = asc ''00000''"
    using assms(3) by (simp add: extract_zip_def)
  have e: "eta (asc ''00000'') =
             \<lparr>eta_zip = asc ''00000'', eta_window = asc ''2'' @ en_dash @ asc ''5 business days''\<rparr>"
    by code_simp
  from invoke_product [OF assms(1,2)] z e show ?thesis
    by (simp add: Let_def)
qed

text \<open>
  A prompt without digits is one, and so is a prompt whose five digits follow a letter
  with an accent (no word boundary stands between them). A prompt with six full-width
  digits is not: the pattern finds them, and they are the zip.
\<close>

theorem default_zip_witness:
  "\<not> use_llm demo_world
   \<and> classify demo_world no_zip_prompt = ''product_assist''
   \<and> re_search (uni demo_world) zip_re no_zip_prompt = None
   \<and> (\<exists>st. invoke demo_world no_zip_prompt = Inr st
          \<and> s_eta st = Some \<lparr>eta_zip = asc ''00000'',
                             eta_window = asc ''2'' @ en_dash @ asc ''5 business days''\<rparr>)
   \<and> classify demo_world accent_prompt = ''product_assist''
   \<and> re_search (uni demo_world) zip_re accent_prompt = None
   \<and> (\<exists>st. invoke demo_world accent_prompt = Inr st
          \<and> s_eta st = Some \<lparr>eta_zip = asc ''00000'',
                             eta_window = asc ''2'' @ en_dash @ asc ''5 business days''\<rparr>)
   \<and> re_search (uni demo_world) zip_re wide_zip_prompt = Some wide_zip
   \<and> extract_zip demo_world wide_zip_prompt = wide_zip"
proof -
  have a: "\<not> use_llm demo_world" by (rule demo_rule_based)
  have b: "classify demo_world no_zip_prompt = ''product_assist''" by code_simp
  have c: "re_search (uni demo_world) zip_re no_zip_prompt = None" by code_simp
  have b': "classify demo_world accent_prompt = ''product_assist''" by code_simp
  have c': "re_search (uni demo_world) zip_re accent_prompt = None" by code_simp
  have x: "re_search (uni demo_world) zip_re wide_zip_prompt = Some wide_zip" by code_simp
  then have y: "extract_zip demo_world wide_zip_prompt = wide_zip"
    by (simp add: extract_zip_def)
  from default_zip [OF a b c] default_zip [OF a b' c'] a b c b' c' x y show ?thesis
    by blast
qed

text \<open>
  C4. For every query, price ceiling and tag set, the list \<open>product_search\<close> returns is
  sorted by price ascending, with the id ascending between equal prices; and the search
  reads nothing but the products, so running it again (at another time of the clock, under
  another injected timestamp) gives the same list.
\<close>

theorem product_search_sorted:
  "sorted_wrt (\<lambda>a b. num_val (price a) < num_val (price b)
                 \<or> (num_val (price a) = num_val (price b) \<and> item_id a \<le> item_id b))
     (product_search w query price_max tags_arg)
   \<and> product_search (w\<lparr>clock := c, now_iso := n\<rparr>) query price_max tags_arg
       = product_search w query price_max tags_arg"
proof -
  have "sorted (map sort_key_of (product_search w query price_max tags_arg))"
    by (simp add: product_search_def Let_def)
  then have a: "sorted_wrt (\<lambda>a b. num_val (price a) < num_val (price b)
                 \<or> (num_val (price a) = num_val (price b) \<and> item_id a \<le> item_id b))
     (product_search w query price_max tags_arg)"
    unfolding sorted_wrt_key .
  have b: "product_search (w\<lparr>clock := c, now_iso := n\<rparr>) query price_max tags_arg
       = product_search w query price_max tags_arg"
    by (simp add: product_search_def)
  from a b show ?thesis
    by (rule conjI)
qed




text \<open>
  C5. In rule-based mode with an evaluation time injected, two invocations on the same
  prompt return the same result, that is the same trace (\<open>intent\<close>, \<open>tools_called\<close>,
  \<open>evidence\<close>, \<open>policy_decision\<close>, \<open>final_message\<close>) and the same reply, whatever the
  clock shows at each of them and whatever the text-generation service would answer.
\<close>

theorem run_agent_idempotent:
  assumes "\<not> use_llm w" and "truthy (now_iso w)"
  shows "run_agent (w\<lparr>clock := c1, llm_classify := lc1, llm_compose := lm1\<rparr>) p
           = run_agent (w\<lparr>clock := c2, llm_classify := lc2, llm_compose := lm2\<rparr>) p"
  using invoke_clock_free [OF assms, where c = c1 and lc = lc1 and lm = lm1 and p = p]
    invoke_clock_free [OF assms, where c = c2 and lc = lc2 and lm = lm2 and p = p]
  by (simp add: run_agent_def)

theorem run_agent_idempotent_witness:
  "\<not> use_llm demo_world
   \<and> truthy (now_iso demo_world)
   \<and> run_agent (demo_world\<lparr>clock := 1757249700000060, llm_classify := (\<lambda>p. Inl LLMError),
                            llm_compose := (\<lambda>st. Inl LLMError)\<rparr>) scenario_2
       = run_agent (demo_world\<lparr>clock := 0, llm_classify := (\<lambda>p. Inr (asc ''product'')),
                              llm_compose := (\<lambda>st. Inr [])\<rparr>) scenario_2"
proof -
  have a: "\<not> use_llm demo_world" by (rule demo_rule_based)
  have b: "truthy (now_iso demo_world)" by (simp add: demo_world_def truthy_def asc_def)
  from run_agent_idempotent [OF a b] a b show ?thesis
    by simp
qed




text \<open>
  C8. In rule-based mode, the prompt of the test driver's first case,
  \<open>Wedding guest, midi, under $120\<close>, a dash, \<open>I'm between M/L. ETA to 560001?\<close>, gets the
  intent \<open>product_assist\<close>; the price ceiling read from it is 120, the tags are \<open>wedding\<close>
  and \<open>midi\<close>, and the products are searched with them; the zip is \<open>560001\<close>, which starts
  with \<open>56\<close>, and the delivery window is 3 to 5 business days (written with a dash); the
  size recommended is \<open>M\<close>, the lower-cased prompt containing neither \<open>loose\<close> nor
  \<open>oversized\<close>.
\<close>

theorem scenario_1_product_assist:
  assumes "\<not> use_llm w"
  shows "classify w scenario_1 = ''product_assist''
       \<and> extract_price_cap w scenario_1 = Some (Finite 120)
       \<and> extract_tags w scenario_1 = [asc ''wedding'', asc ''midi'']
       \<and> extract_zip w scenario_1 = asc ''560001''
       \<and> startswith (extract_zip w scenario_1) (asc ''56'')
       \<and> \<not> str_in (asc ''loose'') (lower (uni w) scenario_1)
       \<and> \<not> str_in (asc ''oversized'') (lower (uni w) scenario_1)
       \<and> (\<exists>st. invoke w scenario_1 = Inr st
              \<and> s_intent st = Some ''product_assist''
              \<and> s_products st =
                  Some (take 2 (product_search w scenario_1 (Some (Finite 120))
                                  (Some [asc ''wedding'', asc ''midi''])))
              \<and> s_eta st = Some \<lparr>eta_zip = asc ''560001'',
                                 eta_window = asc ''3'' @ en_dash @ asc ''5 business days''\<rparr>
              \<and> map_option recommended (s_size st) = Some (asc ''M'')
              \<and> s_tools_called st = Some [''product_search'', ''size_recommender'', ''eta''])
       \<and> map_sum id (t_intent \<circ> res_trace) (run_agent w scenario_1)
           = Inr (Some ''product_assist'')"
proof -
  have c: "classify w scenario_1 = ''product_assist''" by code_simp
  have p: "extract_price_cap w scenario_1 = Some (Finite 120)" by code_simp
  have t: "extract_tags w scenario_1 = [asc ''wedding'', asc ''midi'']" by code_simp
  have z: "extract_zip w scenario_1 = asc ''560001''" by code_simp
  have s: "startswith (asc ''560001'') (asc ''56'')" by code_simp
  have l: "\<not> str_in (asc ''loose'') (lower (uni w) scenario_1)" by code_simp
  have v: "\<not> str_in (asc ''oversized'') (lower (uni w) scenario_1)" by code_simp
  have e: "eta (asc ''560001'') =
             \<lparr>eta_zip = asc ''560001'', eta_window = asc ''3'' @ en_dash @ asc ''5 business days''\<rparr>"
    by code_simp
  have r: "recommended (size_recommender w scenario_1) = asc ''M''"
    using l v by (simp add: size_recommender_def Let_def)
  have n: "[asc ''wedding'', asc ''midi''] \<noteq> []" by simp
  from invoke_product [OF assms c] have i: "\<exists>st. invoke w scenario_1 = Inr st
              \<and> s_intent st = Some ''product_assist''
              \<and> s_products st =
                  Some (take 2 (product_search w scenario_1 (Some (Finite 120))
                                  (Some [asc ''wedding'', asc ''midi''])))
              \<and> s_eta st = Some \<lparr>eta_zip = asc ''560001'',
                                 eta_window = asc ''3'' @ en_dash @ asc ''5 business days''\<rparr>
              \<and> map_option recommended (s_size st) = Some (asc ''M'')
              \<and> s_tools_called st = Some [''product_search'', ''size_recommender'', ''eta'']"
    by (simp add: Let_def p t z e r)
  from invoke_product [OF assms c]
  have j: "map_sum id (t_intent \<circ> res_trace) (run_agent w scenario_1)
           = Inr (Some ''product_assist'')"
    by (simp add: run_agent_def result_of_def Let_def)
  from c p t z s l v i j show ?thesis
    by simp
qed

text \<open>In the demo world, the two products picked are the two priced under 120.\<close>

theorem scenario_1_product_assist_witness:
  "\<not> use_llm demo_world
   \<and> classify demo_world scenario_1 = ''product_assist''
   \<and> extract_price_cap demo_world scenario_1 = Some (Finite 120)
   \<and> extract_zip demo_world scenario_1 = asc ''560001''
   \<and> map (\<lambda>x. (item_id x, price x))
        (product_search demo_world scenario_1 (Some (Finite 120))
           (Some [asc ''wedding'', asc ''midi'']))
       = [(asc ''P2'', JInt 99), (asc ''P1'', JInt 119)]
   \<and> map_sum id (t_intent \<circ> res_trace) (run_agent demo_world scenario_1)
       = Inr (Some ''product_assist'')"
proof -
  have a: "\<not> use_llm demo_world" by (rule demo_rule_based)
  have b: "map (\<lambda>x. (item_id x, price x))
        (product_search demo_world scenario_1 (Some (Finite 120))
           (Some [asc ''wedding'', asc ''midi'']))
       = [(asc ''P2'', JInt 99), (asc ''P1'', JInt 119)]"
    by code_simp
  from scenario_1_product_assist [OF a] a b show ?thesis
    by simp
qed

end
